theory Spec2Isabelle
  imports Complex_Main
begin

section \<open>Data model\<close>

text \<open>
  Identifiers are MongoDB ObjectIds. Their \<open>toString()\<close> rendering is injective, so the
  comparison \<open>a.toString() !== b.toString()\<close> of the source is disequality of identifiers.
\<close>

datatype objectId = ObjectId nat

text \<open>
  A JavaScript string is the list of its UTF-16 code units. \<open>str\<close> writes an ASCII
  literal of the source as such a string. The texts of error messages, header values
  (which reach Node as Latin-1, one character per byte), tokens and the signing key stay
  Isabelle strings.
\<close>

type_synonym jsstring = "nat list"

definition str :: "string \<Rightarrow> jsstring" where
  "str s = map (of_char :: char \<Rightarrow> nat) s"

text \<open>
  A JavaScript number as \<open>JSON.parse\<close> yields it: the value of the JSON text, or an
  infinity when the text overflows. (Rounding to a double is not modelled; \<open>NaN\<close> has no
  JSON text.)
\<close>

datatype number = Finite real | PlusInfinity | MinusInfinity

text \<open>models/Trip.js: \<open>locationSchema\<close> and \<open>tripSchema\<close> (with \<open>timestamps: true\<close>).\<close>

record location =
  name :: jsstring
  latitude :: number
  longitude :: number

record trip =
  trip_id :: objectId
  title :: jsstring
  description :: "jsstring option"
  locations :: "location list"
  createdBy :: objectId
  createdAt :: nat
  updatedAt :: nat

text \<open>models/User.js: \<open>userSchema\<close> (with \<open>timestamps: true\<close>).\<close>

record user =
  user_id :: objectId
  username :: jsstring
  email :: jsstring
  password :: jsstring
  user_createdAt :: nat
  user_updatedAt :: nat

text \<open>A user document as \<open>.select('-password')\<close> returns it: every path but the password.\<close>

record account =
  account_id :: objectId
  account_username :: jsstring
  account_email :: jsstring
  account_createdAt :: nat
  account_updatedAt :: nat

definition select_minus_password :: "user \<Rightarrow> account" where
  "select_minus_password u =
     \<lparr>account_id = user_id u, account_username = username u, account_email = email u,
      account_createdAt = user_createdAt u, account_updatedAt = user_updatedAt u\<rparr>"

text \<open>The two collections of the document store, in insertion order.\<close>

record db =
  users :: "user list"
  trips :: "trip list"

section \<open>Requests, responses, errors\<close>

text \<open>
  A value of a JSON request body after \<open>express.json()\<close>. A field that the client did
  not send is \<open>undefined\<close>. An object is its list of members in the order of the text.
\<close>

datatype jsvalue =
    Undefined
  | Null
  | Boolean bool
  | Number number
  | String jsstring
  | Array "jsvalue list"
  | Object "(jsstring \<times> jsvalue) list"

text \<open>Truthiness: \<open>!v\<close> is \<open>\<not> truthy v\<close>.\<close>

fun truthy :: "jsvalue \<Rightarrow> bool" where
  "truthy Undefined = False"
| "truthy Null = False"
| "truthy (Boolean b) = b"
| "truthy (Number n) = (n \<noteq> Finite 0)"
| "truthy (String s) = (s \<noteq> [])"
| "truthy (Array xs) = True"
| "truthy (Object kvs) = True"

text \<open>\<open>o.key\<close> on a parsed object: the last member of that name, or \<open>undefined\<close>.\<close>

definition property :: "(jsstring \<times> jsvalue) list \<Rightarrow> string \<Rightarrow> jsvalue" where
  "property kvs key = (case map_of (rev kvs) (str key) of None \<Rightarrow> Undefined | Some v \<Rightarrow> v)"

text \<open>
  \<open>v.length === 0\<close> for a truthy \<open>v\<close>: strings and arrays have a length, an object has
  one when it has a member of that name, numbers and booleans have none.
\<close>

fun length_is_zero :: "jsvalue \<Rightarrow> bool" where
  "length_is_zero (String s) = (length s = 0)"
| "length_is_zero (Array xs) = (length xs = 0)"
| "length_is_zero (Object kvs) = (property kvs ''length'' = Number (Finite 0))"
| "length_is_zero v = False"

record body =
  body_username :: jsvalue
  body_email :: jsvalue
  body_password :: jsvalue
  body_title :: jsvalue
  body_description :: jsvalue
  body_locations :: jsvalue

text \<open>
  \<open>req.params.id\<close> is the path segment as the client sent it; it is \<open>undefined\<close> on the
  routes without an \<open>:id\<close>.
\<close>

record request =
  headers_authorization :: "string option"
  params_id :: "jsstring option"
  req_body :: body
  req_user :: "account option"

text \<open>
  The JSON documents the handlers send. \<open>JTrips\<close> pairs every trip with its populated
  \<open>createdBy\<close> path: the owner's \<open>{_id, username}\<close>, or \<open>null\<close>.
\<close>

datatype json =
    JAuth objectId jsstring jsstring string
  | JTrips "(trip \<times> (objectId \<times> jsstring) option) list"
  | JTrip trip
  | JMessage string
  | JError string
  | JErrorStack string "string option"

text \<open>
  The Express response object: \<open>res.status(c)\<close> sets the status code, \<open>res.json(b)\<close>
  writes a body. Every write is recorded, so a second write is observable.
\<close>

record response =
  statusCode :: nat
  sent :: "json list"

definition new_response :: response where
  "new_response = \<lparr>statusCode = 200, sent = []\<rparr>"

definition status :: "response \<Rightarrow> nat \<Rightarrow> response" where
  "status res c = res\<lparr>statusCode := c\<rparr>"

definition send_json :: "response \<Rightarrow> json \<Rightarrow> response" where
  "send_json res b = res\<lparr>sent := sent res @ [b]\<rparr>"

text \<open>
  A JavaScript error object: \<open>err.message\<close> and \<open>err.stack\<close>. The stack starts with the
  error's name and message; the frame lines that follow are left out, and so is the
  offending value that Mongoose quotes in its messages.
\<close>

record error =
  message :: string
  stack :: string

definition mk_error :: "string \<Rightarrow> string \<Rightarrow> error" where
  "mk_error kind msg = \<lparr>message = msg, stack = kind @ '': '' @ msg\<rparr>"

definition new_Error :: "string \<Rightarrow> error" where
  "new_Error msg = mk_error ''Error'' msg"

definition null_deref :: error where
  "null_deref = mk_error ''TypeError'' ''Cannot read properties of null (reading _id)''"

text \<open>
  How an \<open>asyncHandler\<close>-wrapped function ends: it returns, it rejects with an error
  (which \<open>asyncHandler\<close> hands to \<open>next(err)\<close>), or it calls \<open>next()\<close>.
\<close>

datatype outcome = Completed | Threw error | CalledNext

section \<open>Process configuration and the per-request environment\<close>

record env =
  JWT_SECRET :: "string option"
  NODE_ENV :: "string option"

text \<open>
  What a request takes from outside the program: the clock (\<open>Date.now()\<close>, milliseconds),
  the ObjectId the driver generates for a new document, and the random bytes that
  \<open>bcrypt.genSalt\<close> draws.
\<close>

record world =
  clock :: nat
  new_ObjectId :: objectId
  random_bytes :: string

section \<open>What lies outside the repository\<close>

text \<open>
  The packages jsonwebtoken, bcryptjs and Mongoose and the Unicode tables of the
  JavaScript engine are not under the repository. What the model needs of them and the
  source does not determine is a parameter:
  \<^item> the token codec: \<open>jwt_encode\<close> signs and serialises a payload under a key,
    \<open>jwt_decode\<close> checks the signature and parses;
  \<^item> the password hash of bcryptjs;
  \<^item> \<open>String.prototype.toLowerCase\<close>;
  \<^item> Mongoose's cast of a string to an ObjectId (\<open>None\<close>: the string is no ObjectId);
  \<^item> Mongoose's casts of a value that is not of the path's own type: of a number,
    boolean, array or object to a String path, of a string, boolean, array or object to
    a Number path, of a value that is no object to an embedded location, of a value that
    is no array to the location array (\<open>None\<close>: the cast fails);
  \<^item> what \<open>User.findOne({email: v})\<close> finds when \<open>v\<close> is not a string.
  What the packages do around these cores is written out in the sections that follow.
\<close>

record payload =
  payload_id :: objectId
  iat :: nat
  exp :: nat

record lib =
  jwt_encode :: "payload \<Rightarrow> string \<Rightarrow> string"
  jwt_decode :: "string \<Rightarrow> string \<Rightarrow> payload option"
  bcrypt_genSalt :: "nat \<Rightarrow> string \<Rightarrow> jsstring"
  bcrypt_hash :: "jsstring \<Rightarrow> jsstring \<Rightarrow> jsstring"
  bcrypt_compare :: "jsstring \<Rightarrow> jsstring \<Rightarrow> bool"
  toLowerCase :: "jsstring \<Rightarrow> jsstring"
  mongoose_castObjectId :: "jsstring \<Rightarrow> objectId option"
  mongoose_castString :: "jsvalue \<Rightarrow> jsstring option"
  mongoose_castNumber :: "jsvalue \<Rightarrow> number option"
  mongoose_castEmbedded :: "jsvalue \<Rightarrow> location option"
  mongoose_castDocumentArray :: "jsvalue \<Rightarrow> jsvalue list option"
  mongoose_findOne_email :: "user list \<Rightarrow> jsvalue \<Rightarrow> user option"

section \<open>middleware/errorMiddleware.js\<close>

definition errorHandler :: "env \<Rightarrow> error \<Rightarrow> response \<Rightarrow> response" where
  "errorHandler e err res =
     (let code = (if statusCode res = 200 then 500 else statusCode res);
          res1 = status res code
      in send_json res1
           (JErrorStack (message err)
              (if NODE_ENV e = Some ''production'' then None else Some (stack err))))"

text \<open>
  Express with \<open>asyncHandler\<close>: an error a handler throws reaches the only error
  middleware, \<open>errorHandler\<close>, with the response as the handler left it.
\<close>

definition dispatch :: "env \<Rightarrow> response \<times> outcome \<times> db \<Rightarrow> response \<times> db" where
  "dispatch e r =
     (case r of
        (res, Threw err, d) \<Rightarrow> (errorHandler e err res, d)
      | (res, _, d) \<Rightarrow> (res, d))"

section \<open>Schema types (Mongoose)\<close>

text \<open>
  \<open>String.prototype.trim\<close>, which the \<open>trim\<close> setter calls: it strips the WhiteSpace and
  LineTerminator code points of ECMAScript from both ends (U+0009 to U+000D, U+0020,
  U+00A0, U+1680, U+2000 to U+200A, U+2028, U+2029, U+202F, U+205F, U+3000, U+FEFF).
\<close>

definition isWhitespace :: "nat \<Rightarrow> bool" where
  "isWhitespace c =
     (c \<in> {9, 10, 11, 12, 13, 32, 160, 5760, 8232, 8233, 8239, 8287, 12288, 65279} \<or>
      (8192 \<le> c \<and> c \<le> 8202))"

definition trim :: "jsstring \<Rightarrow> jsstring" where
  "trim s = rev (dropWhile isWhitespace (rev (dropWhile isWhitespace s)))"

text \<open>
  What the driver writes for a string, in a document and in a query filter: BSON strings
  are UTF-8, and the encoder puts U+FFFD in place of every surrogate code unit that is
  not part of a pair. A string without unpaired surrogates is written as it is.
\<close>

definition high_surrogate :: "nat \<Rightarrow> bool" where
  "high_surrogate c = (55296 \<le> c \<and> c \<le> 56319)"

definition low_surrogate :: "nat \<Rightarrow> bool" where
  "low_surrogate c = (56320 \<le> c \<and> c \<le> 57343)"

fun bson_string :: "jsstring \<Rightarrow> jsstring" where
  "bson_string [] = []"
| "bson_string [c] = [if high_surrogate c \<or> low_surrogate c then 65533 else c]"
| "bson_string (c # d # cs) =
     (if high_surrogate c \<and> low_surrogate d then c # d # bson_string cs
      else if high_surrogate c \<or> low_surrogate c then 65533 # bson_string (d # cs)
      else c # bson_string (d # cs))"

text \<open>
  The cast of a value to a String path and to a Number path. \<open>None\<close>: the path has no
  value (\<open>undefined\<close>, \<open>null\<close>) or the cast fails; a required path is then invalid.
\<close>

definition castString :: "lib \<Rightarrow> jsvalue \<Rightarrow> jsstring option" where
  "castString L v =
     (case v of
        String s \<Rightarrow> Some s
      | Undefined \<Rightarrow> None
      | Null \<Rightarrow> None
      | _ \<Rightarrow> mongoose_castString L v)"

definition castNumber :: "lib \<Rightarrow> jsvalue \<Rightarrow> number option" where
  "castNumber L v =
     (case v of
        Number n \<Rightarrow> Some n
      | Undefined \<Rightarrow> None
      | Null \<Rightarrow> None
      | _ \<Rightarrow> mongoose_castNumber L v)"

text \<open>
  The cast to a String path that is not required: \<open>Some None\<close> when there is no value,
  \<open>None\<close> when the cast fails.
\<close>

definition castOptionalString :: "lib \<Rightarrow> jsvalue \<Rightarrow> jsstring option option" where
  "castOptionalString L v =
     (case v of
        String s \<Rightarrow> Some (Some s)
      | Undefined \<Rightarrow> Some None
      | Null \<Rightarrow> Some None
      | _ \<Rightarrow> map_option Some (mongoose_castString L v))"

text \<open>
  \<open>castObjectId\<close> of the id in a query filter: \<open>undefined\<close> stays as it is and matches no
  document; a string that is no ObjectId makes the query throw a CastError.
\<close>

definition castObjectId :: "lib \<Rightarrow> jsstring option \<Rightarrow> error + objectId option" where
  "castObjectId L i =
     (case i of
        None \<Rightarrow> Inr None
      | Some raw \<Rightarrow>
          (case mongoose_castObjectId L raw of
             None \<Rightarrow> Inl (mk_error ''CastError'' ''Cast to ObjectId failed'')
           | Some k \<Rightarrow> Inr (Some k)))"

section \<open>The Trip collection (Mongoose)\<close>

definition Trip_findById :: "lib \<Rightarrow> trip list \<Rightarrow> jsstring option \<Rightarrow> error + trip option" where
  "Trip_findById L ts i =
     (case castObjectId L i of
        Inl err \<Rightarrow> Inl err
      | Inr None \<Rightarrow> Inr None
      | Inr (Some k) \<Rightarrow> Inr (find (\<lambda>t. trip_id t = k) ts))"

definition Trip_find_createdBy :: "trip list \<Rightarrow> objectId \<Rightarrow> trip list" where
  "Trip_find_createdBy ts a = filter (\<lambda>t. createdBy t = a) ts"

text \<open>\<open>deleteOne\<close> removes the first document that matches the filter.\<close>

fun remove_first :: "('a \<Rightarrow> bool) \<Rightarrow> 'a list \<Rightarrow> 'a list" where
  "remove_first P [] = []"
| "remove_first P (x # xs) = (if P x then xs else x # remove_first P xs)"

definition Trip_deleteOne :: "lib \<Rightarrow> trip list \<Rightarrow> jsstring option \<Rightarrow> error + trip list" where
  "Trip_deleteOne L ts i =
     (case castObjectId L i of
        Inl err \<Rightarrow> Inl err
      | Inr None \<Rightarrow> Inr ts
      | Inr (Some k) \<Rightarrow> Inr (remove_first (\<lambda>t. trip_id t = k) ts))"

definition User_findById :: "user list \<Rightarrow> objectId \<Rightarrow> user option" where
  "User_findById us i = find (\<lambda>u. user_id u = i) us"

text \<open>
  \<open>.populate('createdBy', 'username')\<close>: the owner reference is replaced by the owner's
  \<open>{_id, username}\<close>, or by \<open>null\<close> when no such user is stored.
\<close>

definition populate_createdBy :: "user list \<Rightarrow> trip \<Rightarrow> trip \<times> (objectId \<times> jsstring) option" where
  "populate_createdBy us t =
     (t, map_option (\<lambda>u. (user_id u, username u)) (User_findById us (createdBy t)))"

text \<open>
  The cast of one element of \<open>locations\<close> to \<open>locationSchema\<close>: of an object, the members
  \<open>name\<close>, \<open>latitude\<close> and \<open>longitude\<close> are cast, the \<open>trim\<close> setter runs on the name, and
  other members are dropped. \<open>None\<close>: a member is missing or does not cast.
\<close>

definition castLocation :: "lib \<Rightarrow> jsvalue \<Rightarrow> location option" where
  "castLocation L v =
     (case v of
        Object kvs \<Rightarrow>
          (case (castString L (property kvs ''name''),
                 castNumber L (property kvs ''latitude''),
                 castNumber L (property kvs ''longitude'')) of
             (Some n, Some la, Some lo) \<Rightarrow>
               Some \<lparr>name = trim n, latitude = la, longitude = lo\<rparr>
           | _ \<Rightarrow> None)
      | _ \<Rightarrow> mongoose_castEmbedded L v)"

definition castLocations :: "lib \<Rightarrow> jsvalue \<Rightarrow> location list option" where
  "castLocations L v =
     (case v of
        Array xs \<Rightarrow> those (map (castLocation L) xs)
      | _ \<Rightarrow>
          (case mongoose_castDocumentArray L v of
             None \<Rightarrow> None
           | Some xs \<Rightarrow> those (map (castLocation L) xs)))"







text \<open>
  \<open>new Trip({title, description, locations, createdBy})\<close>: every path is cast, the
  \<open>trim\<close> setter runs on the title, the driver assigns the \<open>_id\<close>. The timestamps are
  not set before \<open>save\<close>. \<open>None\<close>: a required path is missing or a path does not
  cast; the document then holds a validation error, which \<open>save\<close> reports.
\<close>

definition new_Trip ::
  "lib \<Rightarrow> world \<Rightarrow> jsvalue \<Rightarrow> jsvalue \<Rightarrow> jsvalue \<Rightarrow> objectId \<Rightarrow> trip option" where
  "new_Trip L w t d ls owner =
     (case (castString L t, castOptionalString L d, castLocations L ls) of
        (Some t1, Some d1, Some ls1) \<Rightarrow>
          Some \<lparr>trip_id = new_ObjectId w, title = trim t1, description = d1,
                locations = ls1, createdBy = owner, createdAt = 0, updatedAt = 0\<rparr>
      | _ \<Rightarrow> None)"

text \<open>
  \<open>trip.save()\<close>: the validators run first (a required string must be non-empty), then
  \<open>timestamps\<close> stamps the document and it is inserted. \<open>save\<close> returns the document
  in memory; the collection holds it as the driver wrote it.
\<close>

definition stored_trip :: "trip \<Rightarrow> trip" where
  "stored_trip t =
     t\<lparr>title := bson_string (title t),
       description := map_option bson_string (description t),
       locations := map (\<lambda>l. l\<lparr>name := bson_string (name l)\<rparr>) (locations t)\<rparr>"

definition Trip_validate :: "trip \<Rightarrow> bool" where
  "Trip_validate t = (title t \<noteq> [] \<and> list_all (\<lambda>l. name l \<noteq> []) (locations t))"

definition Trip_save :: "world \<Rightarrow> trip list \<Rightarrow> trip option \<Rightarrow> error + trip \<times> trip list" where
  "Trip_save w ts doc =
     (case doc of
        None \<Rightarrow> Inl (mk_error ''ValidationError'' ''Trip validation failed'')
      | Some t \<Rightarrow>
          if \<not> Trip_validate t
          then Inl (mk_error ''ValidationError'' ''Trip validation failed'')
          else let t1 = t\<lparr>createdAt := clock w, updatedAt := clock w\<rparr>
               in Inr (t1, ts @ [stored_trip t1]))"

section \<open>controllers/tripController.js\<close>

definition getTrips :: "request \<Rightarrow> response \<Rightarrow> db \<Rightarrow> response \<times> outcome \<times> db" where
  "getTrips req res d =
     (case req_user req of
        None \<Rightarrow> (res, Threw null_deref, d)
      | Some u \<Rightarrow>
          (let found = map (populate_createdBy (users d))
                         (Trip_find_createdBy (trips d) (account_id u))
           in (send_json (status res 200) (JTrips found), Completed, d)))"

definition createTrip ::
  "lib \<Rightarrow> world \<Rightarrow> request \<Rightarrow> response \<Rightarrow> db \<Rightarrow> response \<times> outcome \<times> db" where
  "createTrip L w req res d =
     (let b = req_body req in
      if \<not> truthy (body_title b) \<or> \<not> truthy (body_locations b) \<or>
         length_is_zero (body_locations b)
      then (status res 400,
            Threw (new_Error ''Please include a title and at least one location''), d)
      else
        (case req_user req of
           None \<Rightarrow> (res, Threw null_deref, d)
         | Some u \<Rightarrow>
             (case Trip_save w (trips d)
                     (new_Trip L w (body_title b) (body_description b) (body_locations b)
                        (account_id u)) of
                Inl err \<Rightarrow> (res, Threw err, d)
              | Inr (createdTrip, ts) \<Rightarrow>
                  (send_json (status res 201) (JTrip createdTrip), Completed,
                   d\<lparr>trips := ts\<rparr>))))"

definition deleteTrip :: "lib \<Rightarrow> request \<Rightarrow> response \<Rightarrow> db \<Rightarrow> response \<times> outcome \<times> db" where
  "deleteTrip L req res d =
     (case Trip_findById L (trips d) (params_id req) of
        Inl err \<Rightarrow> (res, Threw err, d)
      | Inr None \<Rightarrow> (status res 404, Threw (new_Error ''Trip not found''), d)
      | Inr (Some t) \<Rightarrow>
          (case req_user req of
             None \<Rightarrow> (res, Threw null_deref, d)
           | Some u \<Rightarrow>
               if createdBy t \<noteq> account_id u
               then (status res 403,
                     Threw (new_Error ''Not authorized to delete this trip''), d)
               else
                 (case Trip_deleteOne L (trips d) (params_id req) of
                    Inl err \<Rightarrow> (res, Threw err, d)
                  | Inr ts \<Rightarrow>
                      (send_json res (JMessage ''Trip removed successfully''), Completed,
                       d\<lparr>trips := ts\<rparr>))))"

section \<open>The jsonwebtoken package\<close>

text \<open>\<open>Math.floor(Date.now() / 1000)\<close>: the clock of jsonwebtoken, in seconds.\<close>

definition clockTimestamp :: "world \<Rightarrow> nat" where
  "clockTimestamp w = clock w div 1000"

text \<open>
  \<open>jwt.sign({id}, secret, {expiresIn: s})\<close> with \<open>s\<close> in seconds: throws without a key,
  else stamps \<open>iat\<close> and \<open>exp = iat + s\<close> and signs.
\<close>

definition jwt_sign :: "lib \<Rightarrow> world \<Rightarrow> objectId \<Rightarrow> string option \<Rightarrow> nat \<Rightarrow> error + string" where
  "jwt_sign L w i secret expiresIn =
     (case secret of
        None \<Rightarrow> Inl (new_Error ''secretOrPrivateKey must have a value'')
      | Some k \<Rightarrow>
          if k = [] then Inl (new_Error ''secretOrPrivateKey must have a value'')
          else Inr (jwt_encode L
                      \<lparr>payload_id = i, iat = clockTimestamp w,
                       exp = clockTimestamp w + expiresIn\<rparr> k))"

text \<open>
  \<open>jwt.verify(token, secret)\<close>: throws for a missing or empty token, a missing key, a
  token that does not decode under the key, and a token whose \<open>exp\<close> the clock has
  reached; else returns the payload.
\<close>

definition jwt_verify :: "lib \<Rightarrow> world \<Rightarrow> string option \<Rightarrow> string option \<Rightarrow> error + payload" where
  "jwt_verify L w token secret =
     (case token of
        None \<Rightarrow> Inl (mk_error ''JsonWebTokenError'' ''jwt must be provided'')
      | Some t \<Rightarrow>
          if t = [] then Inl (mk_error ''JsonWebTokenError'' ''jwt must be provided'')
          else
            (case secret of
               None \<Rightarrow>
                 Inl (mk_error ''JsonWebTokenError'' ''secret or public key must be provided'')
             | Some k \<Rightarrow>
                 if k = []
                 then Inl (mk_error ''JsonWebTokenError''
                             ''secret or public key must be provided'')
                 else
                   (case jwt_decode L t k of
                      None \<Rightarrow> Inl (mk_error ''JsonWebTokenError'' ''invalid token'')
                    | Some p \<Rightarrow>
                        if exp p \<le> clockTimestamp w
                        then Inl (mk_error ''TokenExpiredError'' ''jwt expired'')
                        else Inr p)))"

section \<open>models/User.js\<close>

text \<open>
  A Mongoose document in memory: its fields and the paths set since it was loaded.
  \<open>isModified('password')\<close> asks whether the password is one of them.
\<close>

record user_document =
  doc_fields :: user
  modifiedPaths :: "string list"
  isNew :: bool

definition isModified :: "user_document \<Rightarrow> string \<Rightarrow> bool" where
  "isModified doc path = (path \<in> set (modifiedPaths doc))"

text \<open>
  \<open>userSchema.pre('save', ...)\<close>. The hook returns the document and the bcrypt calls it
  made, in order.
\<close>

datatype bcrypt_call = GenSalt nat | Hash jsstring jsstring

definition userSchema_pre_save ::
  "lib \<Rightarrow> world \<Rightarrow> user_document \<Rightarrow> user_document \<times> bcrypt_call list" where
  "userSchema_pre_save L w this =
     (if \<not> isModified this ''password'' then (this, [])
      else
        (let salt = bcrypt_genSalt L 10 (random_bytes w);
             hashed = bcrypt_hash L (password (doc_fields this)) salt
         in (this\<lparr>doc_fields := (doc_fields this)\<lparr>password := hashed\<rparr>\<rparr>,
             [GenSalt 10, Hash (password (doc_fields this)) salt])))"

text \<open>
  \<open>matchPassword\<close>: \<open>bcrypt.compare\<close> rejects with an error when the entered password
  is not a string.
\<close>

definition matchPassword :: "lib \<Rightarrow> user \<Rightarrow> jsvalue \<Rightarrow> error + bool" where
  "matchPassword L this enteredPassword =
     (case enteredPassword of
        String s \<Rightarrow> Inr (bcrypt_compare L s (password this))
      | _ \<Rightarrow> Inl (new_Error ''Illegal arguments''))"

section \<open>The User collection (Mongoose)\<close>

text \<open>
  The \<open>trim\<close> and \<open>lowercase\<close> setters of a String path leave the empty string as it
  is. On the \<open>email\<close> path the \<open>trim\<close> setter runs first.
\<close>

definition lowercase :: "lib \<Rightarrow> jsstring \<Rightarrow> jsstring" where
  "lowercase L v = (if v = [] then v else toLowerCase L v)"

definition email_setters :: "lib \<Rightarrow> jsstring \<Rightarrow> jsstring" where
  "email_setters L v = lowercase L (trim v)"

text \<open>
  \<open>User.findOne({email})\<close>: Mongoose casts the filter through the schema, so the
  setters of the \<open>email\<close> path run on a queried string.
\<close>

definition User_findOne_email :: "lib \<Rightarrow> user list \<Rightarrow> jsvalue \<Rightarrow> user option" where
  "User_findOne_email L us v =
     (case v of
        String s \<Rightarrow> find (\<lambda>u. email u = bson_string (email_setters L s)) us
      | _ \<Rightarrow> mongoose_findOne_email L us v)"

text \<open>
  \<open>new User({username, email, password})\<close>: every path is cast, the setters of the
  schema run (\<open>trim\<close> on the username, \<open>trim\<close> and \<open>lowercase\<close> on the email), the driver
  assigns the \<open>_id\<close>, and every given path counts as modified. \<open>None\<close>: a path is
  missing or does not cast; \<open>save\<close> then reports a validation error.
\<close>

definition new_User :: "lib \<Rightarrow> world \<Rightarrow> jsvalue \<Rightarrow> jsvalue \<Rightarrow> jsvalue \<Rightarrow> user_document option" where
  "new_User L w un em pw =
     (case (castString L un, castString L em, castString L pw) of
        (Some un1, Some em1, Some pw1) \<Rightarrow>
          Some \<lparr>doc_fields = \<lparr>user_id = new_ObjectId w, username = trim un1,
                              email = email_setters L em1, password = pw1,
                              user_createdAt = 0, user_updatedAt = 0\<rparr>,
                modifiedPaths = [''username'', ''email'', ''password''],
                isNew = True\<rparr>
      | _ \<Rightarrow> None)"

definition User_validate :: "user \<Rightarrow> bool" where
  "User_validate u = (username u \<noteq> [] \<and> email u \<noteq> [] \<and> password u \<noteq> [])"

text \<open>The unique indexes of the schema: \<open>username\<close> and \<open>email\<close>.\<close>

definition duplicate_key :: "user list \<Rightarrow> user \<Rightarrow> bool" where
  "duplicate_key us u = list_ex (\<lambda>v. username v = username u \<or> email v = email u) us"

text \<open>
  \<open>doc.save()\<close>: validation, then the \<open>pre('save')\<close> hook, then the timestamps, then
  the write. A new document is inserted; an existing one replaces the stored document
  with its \<open>_id\<close>. The write fails with E11000 when another document holds the
  username or the email. \<open>save\<close> returns the document in memory; the collection holds
  it as the driver wrote it. (The password path holds bcrypt's output or a value read
  from the store, which the driver writes as it is.)
\<close>

definition stored_user :: "user \<Rightarrow> user" where
  "stored_user u = u\<lparr>username := bson_string (username u), email := bson_string (email u)\<rparr>"

definition User_save :: "lib \<Rightarrow> world \<Rightarrow> user list \<Rightarrow> user_document \<Rightarrow> error + user \<times> user list" where
  "User_save L w us doc =
     (if \<not> User_validate (doc_fields doc)
      then Inl (mk_error ''ValidationError'' ''User validation failed'')
      else
        (let hooked = doc_fields (fst (userSchema_pre_save L w doc));
             stamped = (if isNew doc
                        then hooked\<lparr>user_createdAt := clock w, user_updatedAt := clock w\<rparr>
                        else hooked\<lparr>user_updatedAt := clock w\<rparr>);
             written = stored_user stamped;
             others = filter (\<lambda>v. user_id v \<noteq> user_id stamped) us
         in if duplicate_key (if isNew doc then us else others) written
            then Inl (mk_error ''MongoServerError'' ''E11000 duplicate key error'')
            else if isNew doc then Inr (stamped, us @ [written])
            else Inr (stamped,
                      map (\<lambda>v. if user_id v = user_id stamped then written else v) us)))"

definition User_create ::
  "lib \<Rightarrow> world \<Rightarrow> user list \<Rightarrow> jsvalue \<Rightarrow> jsvalue \<Rightarrow> jsvalue \<Rightarrow> error + user \<times> user list" where
  "User_create L w us un em pw =
     (case new_User L w un em pw of
        None \<Rightarrow> Inl (mk_error ''ValidationError'' ''User validation failed'')
      | Some doc \<Rightarrow> User_save L w us doc)"

text \<open>
  The document that \<open>User.create\<close> returns for a registration whose username, email and
  password are the given strings.
\<close>

definition registered :: "lib \<Rightarrow> world \<Rightarrow> jsstring \<Rightarrow> jsstring \<Rightarrow> jsstring \<Rightarrow> user" where
  "registered L w un em pw =
     \<lparr>user_id = new_ObjectId w, username = trim un, email = email_setters L em,
      password = bcrypt_hash L pw (bcrypt_genSalt L 10 (random_bytes w)),
      user_createdAt = clock w, user_updatedAt = clock w\<rparr>"

section \<open>controllers/authController.js\<close>

text \<open>\<open>expiresIn: '30d'\<close>, in seconds.\<close>

definition thirty_days :: nat where
  "thirty_days = 30 * 24 * 60 * 60"

definition generateToken :: "lib \<Rightarrow> env \<Rightarrow> world \<Rightarrow> objectId \<Rightarrow> error + string" where
  "generateToken L e w i = jwt_sign L w i (JWT_SECRET e) thirty_days"

text \<open>The payload that \<open>generateToken\<close> signs for account \<open>a\<close> at the time of \<open>w\<close>.\<close>

definition issued_payload :: "world \<Rightarrow> objectId \<Rightarrow> payload" where
  "issued_payload w a =
     \<lparr>payload_id = a, iat = clockTimestamp w, exp = clockTimestamp w + thirty_days\<rparr>"

text \<open>
  In \<open>res.status(201).json({..., token: generateToken(user._id)})\<close> the status is set
  before the argument is evaluated, so an error of \<open>generateToken\<close> leaves the status
  at 201. \<open>User.create\<close> returns the document or throws, so the \<open>else\<close> branch of
  \<open>if (user)\<close> is never taken.
\<close>

definition signupUser ::
  "lib \<Rightarrow> env \<Rightarrow> world \<Rightarrow> request \<Rightarrow> response \<Rightarrow> db \<Rightarrow> response \<times> outcome \<times> db" where
  "signupUser L e w req res d =
     (let b = req_body req in
      if \<not> truthy (body_username b) \<or> \<not> truthy (body_email b) \<or>
         \<not> truthy (body_password b)
      then (status res 400, Threw (new_Error ''Please fill in all fields''), d)
      else
        (case User_findOne_email L (users d) (body_email b) of
           Some userExists \<Rightarrow>
             (status res 400, Threw (new_Error ''User already exists''), d)
         | None \<Rightarrow>
             (case User_create L w (users d) (body_username b) (body_email b)
                     (body_password b) of
                Inl err \<Rightarrow> (res, Threw err, d)
              | Inr (u, us) \<Rightarrow>
                  (case generateToken L e w (user_id u) of
                     Inl err \<Rightarrow> (status res 201, Threw err, d\<lparr>users := us\<rparr>)
                   | Inr token \<Rightarrow>
                       (send_json (status res 201)
                          (JAuth (user_id u) (username u) (email u) token),
                        Completed, d\<lparr>users := us\<rparr>)))))"

text \<open>\<open>user.matchPassword(password)\<close> runs only when a user was found.\<close>

definition loginUser ::
  "lib \<Rightarrow> env \<Rightarrow> world \<Rightarrow> request \<Rightarrow> response \<Rightarrow> db \<Rightarrow> response \<times> outcome \<times> db" where
  "loginUser L e w req res d =
     (let b = req_body req;
          invalid = (status res 401, Threw (new_Error ''Invalid email or password''), d)
      in case User_findOne_email L (users d) (body_email b) of
           None \<Rightarrow> invalid
         | Some u \<Rightarrow>
             (case matchPassword L u (body_password b) of
                Inl err \<Rightarrow> (res, Threw err, d)
              | Inr False \<Rightarrow> invalid
              | Inr True \<Rightarrow>
                  (case generateToken L e w (user_id u) of
                     Inl err \<Rightarrow> (res, Threw err, d)
                   | Inr token \<Rightarrow>
                       (send_json res (JAuth (user_id u) (username u) (email u) token),
                        Completed, d))))"

section \<open>middleware/authMiddleware.js\<close>

definition startsWith :: "string \<Rightarrow> string \<Rightarrow> bool" where
  "startsWith s p = (take (length p) s = p)"

text \<open>\<open>s.split(c)\<close> for a one-character separator.\<close>

fun split :: "char \<Rightarrow> string \<Rightarrow> string list" where
  "split c [] = [[]]"
| "split c (x # xs) =
     (if x = c then [] # split c xs
      else (case split c xs of [] \<Rightarrow> [[x]] | piece # pieces \<Rightarrow> (x # piece) # pieces))"

text \<open>\<open>a[1]\<close>: \<open>undefined\<close> when the array has fewer than two elements.\<close>

definition index1 :: "'a list \<Rightarrow> 'a option" where
  "index1 a = (case a of x # y # rest \<Rightarrow> Some y | _ \<Rightarrow> None)"

text \<open>
  \<open>protect\<close>. Inside the header test both the \<open>try\<close> block and the \<open>catch\<close> block
  return, so the final \<open>if (!token)\<close> is reached only when the header test failed, with
  \<open>token\<close> still \<open>undefined\<close>. Everything \<open>jwt.verify\<close> throws is caught.
\<close>

definition protect ::
  "lib \<Rightarrow> env \<Rightarrow> world \<Rightarrow> user list \<Rightarrow> request \<Rightarrow> response \<Rightarrow> request \<times> response \<times> outcome" where
  "protect L e w us req res =
     (let no_token = (req, send_json (status res 401) (JError ''Not authorized, no token''),
                      Completed)
      in case headers_authorization req of
           None \<Rightarrow> no_token
         | Some h \<Rightarrow>
             if startsWith h ''Bearer'' then
               (let token = index1 (split (CHR '' '') h) in
                case jwt_verify L w token (JWT_SECRET e) of
                  Inl err \<Rightarrow>
                    (req, send_json (status res 401) (JError ''Not authorized, token failed''),
                     Completed)
                | Inr decoded \<Rightarrow>
                    (req\<lparr>req_user := map_option select_minus_password
                                       (User_findById us (payload_id decoded))\<rparr>,
                     res, CalledNext))
             else no_token)"

section \<open>routes and index.js\<close>

text \<open>
  \<open>router.get('/', protect, handler)\<close>: the handler runs only when \<open>protect\<close> called
  \<open>next()\<close>, on the request and response that \<open>protect\<close> left.
\<close>

definition protected ::
  "lib \<Rightarrow> env \<Rightarrow> world \<Rightarrow> (request \<Rightarrow> response \<Rightarrow> db \<Rightarrow> response \<times> outcome \<times> db) \<Rightarrow>
     request \<Rightarrow> db \<Rightarrow> response \<times> db" where
  "protected L e w handler req d =
     (case protect L e w (users d) req new_response of
        (req1, res1, CalledNext) \<Rightarrow> dispatch e (handler req1 res1 d)
      | (req1, res1, out) \<Rightarrow> dispatch e (res1, out, d))"

definition GET_trips :: "lib \<Rightarrow> env \<Rightarrow> world \<Rightarrow> request \<Rightarrow> db \<Rightarrow> response \<times> db" where
  "GET_trips L e w = protected L e w getTrips"

definition POST_trips :: "lib \<Rightarrow> env \<Rightarrow> world \<Rightarrow> request \<Rightarrow> db \<Rightarrow> response \<times> db" where
  "POST_trips L e w = protected L e w (createTrip L w)"

definition DELETE_trips_id :: "lib \<Rightarrow> env \<Rightarrow> world \<Rightarrow> request \<Rightarrow> db \<Rightarrow> response \<times> db" where
  "DELETE_trips_id L e w = protected L e w (deleteTrip L)"

definition POST_auth_signup :: "lib \<Rightarrow> env \<Rightarrow> world \<Rightarrow> request \<Rightarrow> db \<Rightarrow> response \<times> db" where
  "POST_auth_signup L e w req d = dispatch e (signupUser L e w req new_response d)"

definition POST_auth_login :: "lib \<Rightarrow> env \<Rightarrow> world \<Rightarrow> request \<Rightarrow> db \<Rightarrow> response \<times> db" where
  "POST_auth_login L e w req d = dispatch e (loginUser L e w req new_response d)"

section \<open>Sample data\<close>

text \<open>
  A small store, a configuration and an instance of what lies outside the repository,
  for evaluating the handlers on concrete requests. The instance is made of lookup
  tables, not of the packages' algorithms: its only token is \<open>h.p.s\<close>, issued to the
  account \<open>ObjectId 3\<close> at time 0 under the key \<open>s3cret\<close>; it knows three ObjectId
  strings; it lower-cases the letters A to Z; it casts no value of a foreign type.
\<close>

definition sample_lib :: lib where
  "sample_lib =
     \<lparr>jwt_encode = (\<lambda>p k. ''h.p.s''),
      jwt_decode = (\<lambda>t k. if t = ''h.p.s'' \<and> k = ''s3cret''
                           then Some \<lparr>payload_id = ObjectId 3, iat = 0, exp = 2592000\<rparr>
                           else None),
      bcrypt_genSalt = (\<lambda>rounds bytes. str ''$2a$10$'' @ str bytes),
      bcrypt_hash = (\<lambda>pw salt. salt @ pw),
      bcrypt_compare = (\<lambda>pw hashed. drop 11 hashed = pw),
      toLowerCase = map (\<lambda>c. if 65 \<le> c \<and> c \<le> 90 then c + 32 else c),
      mongoose_castObjectId =
        map_of [(str ''000000000000000000000007'', ObjectId 7),
                (str ''000000000000000000000008'', ObjectId 8),
                (str ''000000000000000000000009'', ObjectId 9)],
      mongoose_castString = (\<lambda>v. None),
      mongoose_castNumber = (\<lambda>v. None),
      mongoose_castEmbedded = (\<lambda>v. None),
      mongoose_castDocumentArray = (\<lambda>v. None),
      mongoose_findOne_email = (\<lambda>us v. None)\<rparr>"

definition sample_env :: env where
  "sample_env = \<lparr>JWT_SECRET = Some ''s3cret'', NODE_ENV = Some ''production''\<rparr>"

definition sample_world :: world where
  "sample_world = \<lparr>clock = 0, new_ObjectId = ObjectId 3, random_bytes = ''salt''\<rparr>"

definition alice :: user where
  "alice = \<lparr>user_id = ObjectId 1, username = str ''alice'', email = str ''alice@x.com'',
            password = str ''$2a$10$saltpw123456'', user_createdAt = 0,
            user_updatedAt = 0\<rparr>"

definition bob :: user where
  "bob = \<lparr>user_id = ObjectId 2, username = str ''bob'', email = str ''bob@x.com'',
          password = str ''$2a$10$salthunter2'', user_createdAt = 0, user_updatedAt = 0\<rparr>"

definition coastal_run :: trip where
  "coastal_run =
     \<lparr>trip_id = ObjectId 7, title = str ''Coastal Run'', description = None,
      locations = [\<lparr>name = str ''Pier'', latitude = Finite 34, longitude = Finite (- 118)\<rparr>],
      createdBy = ObjectId 1, createdAt = 0, updatedAt = 0\<rparr>"

definition desert_loop :: trip where
  "desert_loop =
     \<lparr>trip_id = ObjectId 8, title = str ''Desert Loop'',
      description = Some (str ''two days''),
      locations = [\<lparr>name = str ''Oasis'', latitude = Finite 33, longitude = Finite (- 115)\<rparr>],
      createdBy = ObjectId 2, createdAt = 0, updatedAt = 0\<rparr>"

definition sample_db :: db where
  "sample_db = \<lparr>users = [alice, bob], trips = [coastal_run, desert_loop]\<rparr>"

definition empty_body :: body where
  "empty_body =
     \<lparr>body_username = Undefined, body_email = Undefined, body_password = Undefined,
      body_title = Undefined, body_description = Undefined, body_locations = Undefined\<rparr>"

text \<open>
  Alice's document as loaded from the store, with only the username changed, and with
  only the password changed.
\<close>

definition renamed_alice :: user_document where
  "renamed_alice =
     \<lparr>doc_fields = alice\<lparr>username := str ''alicia''\<rparr>, modifiedPaths = [''username''],
      isNew = False\<rparr>"

definition repassworded_alice :: user_document where
  "repassworded_alice =
     \<lparr>doc_fields = alice\<lparr>password := str ''hunter3''\<rparr>, modifiedPaths = [''password''],
      isNew = False\<rparr>"

definition signup_body :: "string \<Rightarrow> string \<Rightarrow> string \<Rightarrow> body" where
  "signup_body un em pw =
     empty_body\<lparr>body_username := String (str un), body_email := String (str em),
                body_password := String (str pw)\<rparr>"

definition login_body :: "string \<Rightarrow> string \<Rightarrow> body" where
  "login_body em pw =
     empty_body\<lparr>body_email := String (str em), body_password := String (str pw)\<rparr>"




text \<open>A request that \<open>protect\<close> has let through for the given user.\<close>

definition request_by :: "user \<Rightarrow> jsstring option \<Rightarrow> body \<Rightarrow> request" where
  "request_by u i b =
     \<lparr>headers_authorization = None, params_id = i, req_body = b,
      req_user = Some (select_minus_password u)\<rparr>"

text \<open>A request as it arrives, with the given authorization header.\<close>

definition request_with :: "string option \<Rightarrow> jsstring option \<Rightarrow> body \<Rightarrow> request" where
  "request_with h i b =
     \<lparr>headers_authorization = h, params_id = i, req_body = b, req_user = None\<rparr>"

section \<open>Auxiliary facts\<close>

lemma find_holds: "find P xs = Some x \<Longrightarrow> P x"
  by (induction xs) (auto split: if_splits)



lemma dispatch_threw: "dispatch e (res, Threw err, d) = (errorHandler e err res, d)"
  by (simp add: dispatch_def)

lemma dispatch_completed: "dispatch e (res, Completed, d) = (res, d)"
  by (simp add: dispatch_def)



section \<open>Deleting a trip\<close>








section \<open>Listing trips\<close>

text \<open>
  C2. For an account \<open>a\<close> that is stored and that \<open>protect\<close> has attached to the
  request, \<open>getTrips\<close> answers 200 with exactly the stored trips whose owner is \<open>a\<close>,
  in store order, each with its owner populated as \<open>a\<close> and the account's username.
  No trip of another account is in the answer, for any store; the answer is the empty
  array, still with status 200, exactly when the account owns no trip; the store is
  unchanged.
\<close>

theorem getTrips_ownership:
  assumes stored: "User_findById (users d) a = Some acct"
    and auth: "req_user req = Some (select_minus_password acct)"
  shows "\<exists>found.
           dispatch e (getTrips req new_response d) =
             (\<lparr>statusCode = 200, sent = [JTrips found]\<rparr>, d) \<and>
           map fst found = filter (\<lambda>t. createdBy t = a) (trips d) \<and>
           list_all (\<lambda>(t, owner). owner = Some (a, username acct)) found \<and>
           fst ` set found = {t \<in> set (trips d). createdBy t = a} \<and>
           (\<forall>t \<in> fst ` set found. \<forall>b. b \<noteq> a \<longrightarrow> createdBy t \<noteq> b) \<and>
           (found = [] \<longleftrightarrow> \<not> list_ex (\<lambda>t. createdBy t = a) (trips d))"
proof -
  from stored have ida: "user_id acct = a"
    using find_holds [of "\<lambda>u. user_id u = a" "users d" acct] by (simp add: User_findById_def)
  define found where
    "found = map (populate_createdBy (users d)) (Trip_find_createdBy (trips d) a)"
  have r: "dispatch e (getTrips req new_response d) =
             (\<lparr>statusCode = 200, sent = [JTrips found]\<rparr>, d)"
    using auth ida
    by (simp add: getTrips_def dispatch_completed found_def select_minus_password_def
        send_json_def status_def new_response_def)
  have m: "map fst found = filter (\<lambda>t. createdBy t = a) (trips d)"
    by (simp add: found_def Trip_find_createdBy_def populate_createdBy_def comp_def)
  have o: "list_all (\<lambda>(t, owner). owner = Some (a, username acct)) found"
    using stored ida
    by (simp add: found_def Trip_find_createdBy_def populate_createdBy_def list_all_iff)
  have "fst ` set found = set (map fst found)"
    by simp
  also have "\<dots> = {t \<in> set (trips d). createdBy t = a}"
    unfolding m by simp
  finally have s: "fst ` set found = {t \<in> set (trips d). createdBy t = a}" .
  have n: "\<forall>t \<in> fst ` set found. \<forall>b. b \<noteq> a \<longrightarrow> createdBy t \<noteq> b"
    unfolding s by simp
  have z: "found = [] \<longleftrightarrow> \<not> list_ex (\<lambda>t. createdBy t = a) (trips d)"
    by (simp add: found_def Trip_find_createdBy_def filter_empty_conv list_ex_iff)
  show ?thesis
    by (rule exI [of _ found]) (intro conjI r m o s n z)
qed

text \<open>On the sample store Alice is shown her trip and not Bob's.\<close>

theorem getTrips_ownership_witness:
  "\<exists>found.
     dispatch sample_env (getTrips (request_by alice None empty_body) new_response sample_db) =
       (\<lparr>statusCode = 200, sent = [JTrips found]\<rparr>, sample_db) \<and>
     map fst found = [coastal_run] \<and>
     list_all (\<lambda>(t, owner). owner = Some (ObjectId 1, str ''alice'')) found"
proof -
  have s1: "User_findById (users sample_db) (ObjectId 1) = Some alice"
    by (simp add: sample_db_def alice_def bob_def User_findById_def)
  have a: "req_user (request_by alice None empty_body) = Some (select_minus_password alice)"
    by (simp add: request_by_def)
  have f: "filter (\<lambda>t. createdBy t = ObjectId 1) (trips sample_db) = [coastal_run]"
    by (simp add: sample_db_def coastal_run_def desert_loop_def)
  have n: "username alice = str ''alice''"
    by (simp add: alice_def)
  show ?thesis
    using getTrips_ownership [OF s1 a, of sample_env] unfolding f n
    by (elim exE conjE) (intro exI conjI, assumption+)
qed

section \<open>Creating a trip\<close>

lemma trim_Nil: "trim [] = []"
  by (simp add: trim_def)




















section \<open>The authorization gate\<close>

lemma protect_no_header:
  "headers_authorization req = None \<Longrightarrow>
   protect L e w us req res =
     (req, send_json (status res 401) (JError ''Not authorized, no token''), Completed)"
  by (simp add: protect_def)

lemma protect_not_bearer:
  "headers_authorization req = Some h \<Longrightarrow> \<not> startsWith h ''Bearer'' \<Longrightarrow>
   protect L e w us req res =
     (req, send_json (status res 401) (JError ''Not authorized, no token''), Completed)"
  by (simp add: protect_def)

lemma protect_verify_failed:
  "headers_authorization req = Some h \<Longrightarrow> startsWith h ''Bearer'' \<Longrightarrow>
   jwt_verify L w (index1 (split (CHR '' '') h)) (JWT_SECRET e) = Inl err \<Longrightarrow>
   protect L e w us req res =
     (req, send_json (status res 401) (JError ''Not authorized, token failed''), Completed)"
  by (simp add: protect_def)

lemma protect_verified:
  "headers_authorization req = Some h \<Longrightarrow> startsWith h ''Bearer'' \<Longrightarrow>
   jwt_verify L w (index1 (split (CHR '' '') h)) (JWT_SECRET e) = Inr p \<Longrightarrow>
   protect L e w us req res =
     (req\<lparr>req_user := map_option select_minus_password (User_findById us (payload_id p))\<rparr>,
      res, CalledNext)"
  by (simp add: protect_def)

text \<open>
  C5. On every protected route, whatever the handler behind it: when the request has no
  authorization header, or one that does not start with \<open>Bearer\<close>, the response is 401
  \<open>Not authorized, no token\<close>; when the header starts with \<open>Bearer\<close> and verification of
  what follows the first space fails (this includes a header with nothing after
  \<open>Bearer\<close>), the response is 401 \<open>Not authorized, token failed\<close>. In both cases the
  response is written once, the result does not depend on the handler, and the store is
  unchanged: the handler does not run.
\<close>

theorem protect_short_circuits:
  "(\<not> (\<exists>h. headers_authorization req = Some h \<and> startsWith h ''Bearer'') \<longrightarrow>
      protected L e w handler req d =
        (\<lparr>statusCode = 401, sent = [JError ''Not authorized, no token'']\<rparr>, d))
   \<and> (\<forall>h err. headers_authorization req = Some h \<and> startsWith h ''Bearer'' \<and>
         jwt_verify L w (index1 (split (CHR '' '') h)) (JWT_SECRET e) = Inl err \<longrightarrow>
      protected L e w handler req d =
        (\<lparr>statusCode = 401, sent = [JError ''Not authorized, token failed'']\<rparr>, d))"
proof (intro conjI impI allI)
  assume n: "\<not> (\<exists>h. headers_authorization req = Some h \<and> startsWith h ''Bearer'')"
  have "protect L e w (users d) req new_response =
          (req, send_json (status new_response 401) (JError ''Not authorized, no token''),
           Completed)"
  proof (cases "headers_authorization req")
    case None
    then show ?thesis by (rule protect_no_header)
  next
    case (Some h)
    with n have "\<not> startsWith h ''Bearer''" by simp
    with Some show ?thesis by (rule protect_not_bearer)
  qed
  then show "protected L e w handler req d =
        (\<lparr>statusCode = 401, sent = [JError ''Not authorized, no token'']\<rparr>, d)"
    by (simp add: protected_def dispatch_completed send_json_def status_def new_response_def)
next
  fix h err
  assume a: "headers_authorization req = Some h \<and> startsWith h ''Bearer'' \<and>
         jwt_verify L w (index1 (split (CHR '' '') h)) (JWT_SECRET e) = Inl err"
  then have "protect L e w (users d) req new_response =
          (req, send_json (status new_response 401) (JError ''Not authorized, token failed''),
           Completed)"
    by (intro protect_verify_failed) auto
  then show "protected L e w handler req d =
        (\<lparr>statusCode = 401, sent = [JError ''Not authorized, token failed'']\<rparr>, d)"
    by (simp add: protected_def dispatch_completed send_json_def status_def new_response_def)
qed

text \<open>
  On the sample store, in front of \<open>deleteTrip\<close> for Alice's trip: no header, a
  \<open>Basic\<close> header, a forged bearer token, and \<open>Bearer\<close> alone.
\<close>

theorem protect_short_circuits_witness:
  "DELETE_trips_id sample_lib sample_env sample_world
     (request_with None (Some (str ''000000000000000000000007'')) empty_body) sample_db =
     (\<lparr>statusCode = 401, sent = [JError ''Not authorized, no token'']\<rparr>, sample_db)
   \<and> DELETE_trips_id sample_lib sample_env sample_world
     (request_with (Some ''Basic YWxpY2U6cHc='') (Some (str ''000000000000000000000007''))
        empty_body) sample_db =
     (\<lparr>statusCode = 401, sent = [JError ''Not authorized, no token'']\<rparr>, sample_db)
   \<and> DELETE_trips_id sample_lib sample_env sample_world
     (request_with (Some ''Bearer forged'') (Some (str ''000000000000000000000007''))
        empty_body) sample_db =
     (\<lparr>statusCode = 401, sent = [JError ''Not authorized, token failed'']\<rparr>, sample_db)
   \<and> DELETE_trips_id sample_lib sample_env sample_world
     (request_with (Some ''Bearer'') (Some (str ''000000000000000000000007''))
        empty_body) sample_db =
     (\<lparr>statusCode = 401, sent = [JError ''Not authorized, token failed'']\<rparr>, sample_db)"
proof -
  note t = protect_short_circuits [of _ sample_lib sample_env sample_world "deleteTrip sample_lib" sample_db]
  have n1: "\<not> (\<exists>h. headers_authorization (request_with None i b) = Some h \<and>
                   startsWith h ''Bearer'')" for i b
    by (simp add: request_with_def)
  have n2: "\<not> (\<exists>h. headers_authorization (request_with (Some ''Basic YWxpY2U6cHc='') i b) = Some h \<and>
                   startsWith h ''Bearer'')" for i b
    by (simp add: request_with_def startsWith_def)
  have f1: "headers_authorization (request_with (Some ''Bearer forged'') i b) = Some ''Bearer forged'' \<and>
            startsWith ''Bearer forged'' ''Bearer'' \<and>
            jwt_verify sample_lib sample_world (index1 (split (CHR '' '') ''Bearer forged''))
              (JWT_SECRET sample_env) = Inl (mk_error ''JsonWebTokenError'' ''invalid token'')" for i b
    by (simp add: request_with_def startsWith_def index1_def jwt_verify_def sample_lib_def
        sample_env_def)
  have f2: "headers_authorization (request_with (Some ''Bearer'') i b) = Some ''Bearer'' \<and>
            startsWith ''Bearer'' ''Bearer'' \<and>
            jwt_verify sample_lib sample_world (index1 (split (CHR '' '') ''Bearer''))
              (JWT_SECRET sample_env) = Inl (mk_error ''JsonWebTokenError'' ''jwt must be provided'')" for i b
    by (simp add: request_with_def startsWith_def index1_def jwt_verify_def)
  from t [THEN conjunct1, rule_format, OF n1] t [THEN conjunct1, rule_format, OF n2]
    t [THEN conjunct2, rule_format, OF f1] t [THEN conjunct2, rule_format, OF f2]
  show ?thesis
    by (simp add: DELETE_trips_id_def)
qed

section \<open>Error responses\<close>

text \<open>
  C7 as the claim states it fails twice. With \<open>NODE_ENV = test\<close>, which is not the
  development configuration, \<open>errorHandler\<close> sends the stack trace. And the 401 that
  \<open>protect\<close> writes has an \<open>error\<close> field only.
\<close>

theorem errorHandler_stack_counterexample:
  "NODE_ENV \<lparr>JWT_SECRET = Some ''s3cret'', NODE_ENV = Some ''test''\<rparr> \<noteq> Some ''development'' \<and>
   errorHandler \<lparr>JWT_SECRET = Some ''s3cret'', NODE_ENV = Some ''test''\<rparr>
     (new_Error ''Trip not found'') (status new_response 404) =
     \<lparr>statusCode = 404,
      sent = [JErrorStack ''Trip not found'' (Some ''Error: Trip not found'')]\<rparr>
   \<and> GET_trips sample_lib sample_env sample_world (request_with None None empty_body) sample_db =
     (\<lparr>statusCode = 401, sent = [JError ''Not authorized, no token'']\<rparr>, sample_db)"
  by (simp add: errorHandler_def new_Error_def mk_error_def status_def send_json_def
      new_response_def GET_trips_def protected_def protect_def request_with_def dispatch_def)

text \<open>
  C7, as the code has it. \<open>errorHandler\<close> keeps a status code other than 200 and turns
  200 into 500; the body it writes is \<open>{error: message, stack: s}\<close>, where \<open>s\<close> is
  \<open>null\<close> when \<open>NODE_ENV\<close> is \<open>production\<close> and the stack trace in every other
  configuration. \<open>protect\<close> either leaves the response untouched and calls \<open>next()\<close>, or
  writes a 401 whose body is \<open>{error: message}\<close> with one of its two messages.
\<close>

theorem error_response_shapes:
  "errorHandler e err res =
     \<lparr>statusCode = (if statusCode res = 200 then 500 else statusCode res),
      sent = sent res @
        [JErrorStack (message err)
           (if NODE_ENV e = Some ''production'' then None else Some (stack err))]\<rparr>
   \<and> (case protect L e w us req new_response of
         (req1, res1, CalledNext) \<Rightarrow> res1 = new_response
       | (req1, res1, out) \<Rightarrow>
           statusCode res1 = 401 \<and>
           (sent res1 = [JError ''Not authorized, no token''] \<or>
            sent res1 = [JError ''Not authorized, token failed'']))"
proof
  show "errorHandler e err res =
     \<lparr>statusCode = (if statusCode res = 200 then 500 else statusCode res),
      sent = sent res @
        [JErrorStack (message err)
           (if NODE_ENV e = Some ''production'' then None else Some (stack err))]\<rparr>"
    by (simp add: errorHandler_def status_def send_json_def Let_def)
next
  show "case protect L e w us req new_response of
         (req1, res1, CalledNext) \<Rightarrow> res1 = new_response
       | (req1, res1, out) \<Rightarrow>
           statusCode res1 = 401 \<and>
           (sent res1 = [JError ''Not authorized, no token''] \<or>
            sent res1 = [JError ''Not authorized, token failed''])"
    by (simp add: protect_def status_def send_json_def new_response_def Let_def
        split: option.splits sum.splits)
qed

text \<open>With \<open>NODE_ENV\<close> unset the trace is sent; in production it is not.\<close>

theorem error_response_shapes_witness:
  "errorHandler \<lparr>JWT_SECRET = None, NODE_ENV = None\<rparr> (new_Error ''Trip not found'')
     (status new_response 404) =
     \<lparr>statusCode = 404,
      sent = [JErrorStack ''Trip not found'' (Some ''Error: Trip not found'')]\<rparr>
   \<and> errorHandler sample_env (new_Error ''Trip not found'') new_response =
     \<lparr>statusCode = 500, sent = [JErrorStack ''Trip not found'' None]\<rparr>"
  using error_response_shapes [of "\<lparr>JWT_SECRET = None, NODE_ENV = None\<rparr>"
      "new_Error ''Trip not found''" "status new_response 404"]
    error_response_shapes [of sample_env "new_Error ''Trip not found''" new_response]
  by (simp add: new_Error_def mk_error_def status_def new_response_def sample_env_def)

section \<open>A valid token for an account that is not stored\<close>

text \<open>
  C9. When the header starts with \<open>Bearer\<close>, the token after the first space verifies
  (it is correctly signed and not expired), and no stored account has the identifier in
  its payload, \<open>protect\<close> writes no response, attaches \<open>null\<close> as the user and calls
  \<open>next()\<close>. \<open>getTrips\<close> then throws on reading \<open>req.user._id\<close>, and the route answers
  500 with that TypeError instead of 401.
\<close>

theorem protect_null_user:
  assumes hdr: "headers_authorization req = Some h" "startsWith h ''Bearer''"
    and valid: "jwt_verify L w (index1 (split (CHR '' '') h)) (JWT_SECRET e) = Inr p"
    and gone: "User_findById (users d) (payload_id p) = None"
  shows "protect L e w (users d) req new_response =
           (req\<lparr>req_user := None\<rparr>, new_response, CalledNext)
         \<and> getTrips (req\<lparr>req_user := None\<rparr>) new_response d =
             (new_response, Threw null_deref, d)
         \<and> GET_trips L e w req d =
             (\<lparr>statusCode = 500,
               sent = [JErrorStack ''Cannot read properties of null (reading _id)''
                         (if NODE_ENV e = Some ''production'' then None
                          else Some (stack null_deref))]\<rparr>, d)"
proof -
  have p: "protect L e w (users d) req new_response =
             (req\<lparr>req_user := None\<rparr>, new_response, CalledNext)"
    using protect_verified [OF hdr valid, of "users d" new_response] gone by simp
  have g: "getTrips (req\<lparr>req_user := None\<rparr>) new_response d =
             (new_response, Threw null_deref, d)"
    by (simp add: getTrips_def)
  have "GET_trips L e w req d = (errorHandler e null_deref new_response, d)"
    by (simp add: GET_trips_def protected_def p g dispatch_threw)
  then have r: "GET_trips L e w req d =
             (\<lparr>statusCode = 500,
               sent = [JErrorStack ''Cannot read properties of null (reading _id)''
                         (if NODE_ENV e = Some ''production'' then None
                          else Some (stack null_deref))]\<rparr>, d)"
    by (simp add: errorHandler_def status_def send_json_def new_response_def Let_def
        null_deref_def mk_error_def)
  from p g r show ?thesis by (intro conjI)
qed

text \<open>
  The sample token names account \<open>ObjectId 3\<close>, which the sample store does not hold.
\<close>

theorem protect_null_user_witness:
  "GET_trips sample_lib sample_env sample_world
     (request_with (Some ''Bearer h.p.s'') None empty_body) sample_db =
     (\<lparr>statusCode = 500,
       sent = [JErrorStack ''Cannot read properties of null (reading _id)'' None]\<rparr>, sample_db)"
proof -
  have h1: "headers_authorization (request_with (Some ''Bearer h.p.s'') None empty_body) =
              Some ''Bearer h.p.s''"
    by (simp add: request_with_def)
  have h2: "startsWith ''Bearer h.p.s'' ''Bearer''"
    by (simp add: startsWith_def)
  have v: "jwt_verify sample_lib sample_world (index1 (split (CHR '' '') ''Bearer h.p.s''))
             (JWT_SECRET sample_env) =
           Inr \<lparr>payload_id = ObjectId 3, iat = 0, exp = 2592000\<rparr>"
    by (simp add: index1_def jwt_verify_def sample_lib_def sample_env_def sample_world_def
        clockTimestamp_def)
  have g: "User_findById (users sample_db)
             (payload_id \<lparr>payload_id = ObjectId 3, iat = 0, exp = 2592000\<rparr>) = None"
    by (simp add: User_findById_def sample_db_def alice_def bob_def)
  from protect_null_user [OF h1 h2 v g] show ?thesis
    by (simp add: sample_env_def)
qed

section \<open>Issuing and verifying a token\<close>

lemma split_no_separator: "c \<notin> set s \<Longrightarrow> split c s = [s]"
  by (induction s) auto

lemma split_Bearer:
  assumes "CHR '' '' \<notin> set t"
  shows "index1 (split (CHR '' '') (''Bearer '' @ t)) = Some t"
  using split_no_separator [OF assms] by (simp add: index1_def)

text \<open>
  C4. Let the signing key be configured, and let the token package round-trip the payload
  that \<open>generateToken\<close> signs for account \<open>a\<close> (decoding the encoded payload under the
  same key returns it; the token is not empty and has no space in it). Then
  \<open>generateToken\<close> returns a token, and at any time before \<open>iat\<close> plus thirty days
  \<open>jwt.verify\<close> accepts that token and the payload names \<open>a\<close>; sent as
  \<open>Bearer <token>\<close>, it makes \<open>protect\<close> look up account \<open>a\<close> and call \<open>next()\<close>.
\<close>

theorem token_round_trip:
  assumes key: "JWT_SECRET e = Some k" "k \<noteq> []"
    and codec: "jwt_decode L (jwt_encode L (issued_payload w0 a) k) k = Some (issued_payload w0 a)"
    and shape: "jwt_encode L (issued_payload w0 a) k \<noteq> []"
      "CHR '' '' \<notin> set (jwt_encode L (issued_payload w0 a) k)"
    and window: "clockTimestamp w1 < clockTimestamp w0 + thirty_days"
  shows "\<exists>token.
           generateToken L e w0 a = Inr token \<and>
           (\<exists>decoded. jwt_verify L w1 (Some token) (JWT_SECRET e) = Inr decoded \<and>
                      payload_id decoded = a) \<and>
           protect L e w1 us (req\<lparr>headers_authorization := Some (''Bearer '' @ token)\<rparr>) res =
             (req\<lparr>headers_authorization := Some (''Bearer '' @ token),
                 req_user := map_option select_minus_password (User_findById us a)\<rparr>,
              res, CalledNext)"
proof -
  let ?token = "jwt_encode L (issued_payload w0 a) k"
  have g: "generateToken L e w0 a = Inr ?token"
    using key by (simp add: generateToken_def jwt_sign_def issued_payload_def)
  have v: "jwt_verify L w1 (Some ?token) (JWT_SECRET e) = Inr (issued_payload w0 a)"
    using key codec shape(1) window
    by (simp add: jwt_verify_def) (simp add: issued_payload_def)
  have i: "payload_id (issued_payload w0 a) = a"
    by (simp add: issued_payload_def)
  let ?req = "req\<lparr>headers_authorization := Some (''Bearer '' @ ?token)\<rparr>"
  have h: "headers_authorization ?req = Some (''Bearer '' @ ?token)"
    by simp
  have b: "startsWith (''Bearer '' @ ?token) ''Bearer''"
    by (simp add: startsWith_def)
  have x: "jwt_verify L w1 (index1 (split (CHR '' '') (''Bearer '' @ ?token))) (JWT_SECRET e) =
             Inr (issued_payload w0 a)"
    unfolding split_Bearer [OF shape(2)] by (rule v)
  have p: "protect L e w1 us ?req res =
             (?req\<lparr>req_user := map_option select_minus_password (User_findById us a)\<rparr>,
              res, CalledNext)"
    using protect_verified [OF h b x, of us res] by (simp add: i)
  show ?thesis
    using g v i p by (intro exI [of _ ?token] conjI exI [of _ "issued_payload w0 a"])
qed

text \<open>
  The sample token, issued at time 0, is accepted one millisecond before the thirty days
  are over.
\<close>

theorem token_round_trip_witness:
  "generateToken sample_lib sample_env sample_world (ObjectId 3) = Inr ''h.p.s'' \<and>
   jwt_verify sample_lib (sample_world\<lparr>clock := 2591999999\<rparr>) (Some ''h.p.s'')
     (JWT_SECRET sample_env) = Inr \<lparr>payload_id = ObjectId 3, iat = 0, exp = 2592000\<rparr>"
proof -
  have k: "JWT_SECRET sample_env = Some ''s3cret''" "''s3cret'' \<noteq> []"
    by (simp_all add: sample_env_def)
  have c: "jwt_decode sample_lib
             (jwt_encode sample_lib (issued_payload sample_world (ObjectId 3)) ''s3cret'')
             ''s3cret'' = Some (issued_payload sample_world (ObjectId 3))"
    by (simp add: sample_lib_def issued_payload_def sample_world_def clockTimestamp_def
        thirty_days_def)
  have s: "jwt_encode sample_lib (issued_payload sample_world (ObjectId 3)) ''s3cret'' \<noteq> []"
    "CHR '' '' \<notin> set (jwt_encode sample_lib (issued_payload sample_world (ObjectId 3)) ''s3cret'')"
    by (simp_all add: sample_lib_def)
  have w: "clockTimestamp (sample_world\<lparr>clock := 2591999999\<rparr>) <
           clockTimestamp sample_world + thirty_days"
    by (simp add: clockTimestamp_def sample_world_def thirty_days_def)
  from token_round_trip [OF k c s w]
  obtain token decoded where
    "generateToken sample_lib sample_env sample_world (ObjectId 3) = Inr token"
    "jwt_verify sample_lib (sample_world\<lparr>clock := 2591999999\<rparr>) (Some token)
       (JWT_SECRET sample_env) = Inr decoded"
    by blast
  then show ?thesis
    by (simp add: generateToken_def jwt_sign_def jwt_verify_def sample_lib_def sample_env_def
        sample_world_def clockTimestamp_def thirty_days_def split: if_splits)
qed

section \<open>Registration and login\<close>

lemma find_snoc:
  "find P xs = None \<Longrightarrow> P x \<Longrightarrow> find P (xs @ [x]) = Some x"
  by (induction xs) (auto split: if_splits)

lemma email_setters_nonempty: "email_setters L em \<noteq> [] \<Longrightarrow> trim em \<noteq> [] \<and> em \<noteq> []"
  by (auto simp: email_setters_def lowercase_def trim_Nil)

lemma castString_String: "castString L (String s) = Some s"
  by (simp add: castString_def)

lemma User_create_eq:
  assumes cast: "castString L vu = Some un" "castString L ve = Some em"
      "castString L vp = Some pw"
    and valid: "trim un \<noteq> []" "email_setters L em \<noteq> []" "pw \<noteq> []"
  shows "User_create L w us vu ve vp =
           (if list_ex (\<lambda>v. username v = bson_string (trim un) \<or>
                             email v = bson_string (email_setters L em)) us
            then Inl (mk_error ''MongoServerError'' ''E11000 duplicate key error'')
            else Inr (registered L w un em pw, us @ [stored_user (registered L w un em pw)]))"
  using cast valid
  by (simp add: User_create_def new_User_def User_save_def User_validate_def
      userSchema_pre_save_def isModified_def Let_def duplicate_key_def registered_def
      stored_user_def)

lemma signupUser_reaches_create:
  assumes present: "truthy (body_username (req_body req))" "truthy (body_email (req_body req))"
      "truthy (body_password (req_body req))"
    and new_email: "User_findOne_email L (users d) (body_email (req_body req)) = None"
  shows "signupUser L e w req res d =
           (case User_create L w (users d) (body_username (req_body req))
                   (body_email (req_body req)) (body_password (req_body req)) of
              Inl err \<Rightarrow> (res, Threw err, d)
            | Inr (u, us) \<Rightarrow>
                (case generateToken L e w (user_id u) of
                   Inl err \<Rightarrow> (status res 201, Threw err, d\<lparr>users := us\<rparr>)
                 | Inr token \<Rightarrow>
                     (send_json (status res 201)
                        (JAuth (user_id u) (username u) (email u) token),
                      Completed, d\<lparr>users := us\<rparr>)))"
  using present new_email by (simp add: signupUser_def Let_def)

lemma bson_string_sample:
  "bson_string (str ''bob'') = str ''bob''" "bson_string (str ''carol'') = str ''carol''"
  "bson_string (str ''alicia'') = str ''alicia''"
  "bson_string (str ''alice@x.com'') = str ''alice@x.com''"
  "bson_string (str ''robert@x.com'') = str ''robert@x.com''"
  "bson_string (str ''carol@x.com'') = str ''carol@x.com''"
  by (simp_all add: str_def high_surrogate_def low_surrogate_def)

lemma sample_trim:
  "trim (str ''bob'') = str ''bob''" "trim (str ''carol'') = str ''carol''"
  by (simp_all add: str_def trim_def isWhitespace_def)

lemma sample_email_setters:
  "email_setters sample_lib (str ''robert@x.com'') = str ''robert@x.com''"
  "email_setters sample_lib (str ''Carol@X.com'') = str ''carol@x.com''"
  by (simp_all add: email_setters_def lowercase_def sample_lib_def str_def trim_def
      isWhitespace_def)

lemma sample_new_emails:
  "User_findOne_email sample_lib (users sample_db) (String (str ''robert@x.com'')) = None"
  "User_findOne_email sample_lib (users sample_db) (String (str ''Carol@X.com'')) = None"
  by (simp_all add: User_findOne_email_def sample_email_setters bson_string_sample
      sample_db_def alice_def bob_def) (simp_all add: str_def)

lemma sample_bodies:
  "body_username (req_body (request_with h i (signup_body un em pw))) = String (str un)"
  "body_email (req_body (request_with h i (signup_body un em pw))) = String (str em)"
  "body_password (req_body (request_with h i (signup_body un em pw))) = String (str pw)"
  "body_email (req_body (request_with h i (login_body em pw))) = String (str em)"
  "body_password (req_body (request_with h i (login_body em pw))) = String (str pw)"
  by (simp_all add: request_with_def signup_body_def login_body_def empty_body_def)

text \<open>
  C10. Take a registration whose username, email and password are present (truthy) and
  pass schema validation (each casts to a string; the username is non-blank after
  trimming, the email non-empty after its setters, the password non-empty), whose email
  matches no stored account, and whose trimmed username is the username of a stored
  account. \<open>signupUser\<close> passes its own 400 checks and calls \<open>User.create\<close>; the unique
  index rejects the write; the handler has set no status, so the error middleware
  answers 500 with the store's duplicate-key message, not 400 \<open>User already exists\<close>.
  No account is created.
\<close>

theorem signup_duplicate_username:
  assumes present: "truthy (body_username (req_body req))" "truthy (body_email (req_body req))"
      "truthy (body_password (req_body req))"
    and cast: "castString L (body_username (req_body req)) = Some un"
      "castString L (body_email (req_body req)) = Some em"
      "castString L (body_password (req_body req)) = Some pw"
    and valid: "trim un \<noteq> []" "email_setters L em \<noteq> []" "pw \<noteq> []"
    and new_email: "User_findOne_email L (users d) (body_email (req_body req)) = None"
    and taken: "list_ex (\<lambda>v. username v = bson_string (trim un)) (users d)"
  shows "signupUser L e w req new_response d =
           (new_response,
            Threw (mk_error ''MongoServerError'' ''E11000 duplicate key error''), d)
         \<and> POST_auth_signup L e w req d =
             (\<lparr>statusCode = 500,
               sent = [JErrorStack ''E11000 duplicate key error''
                         (if NODE_ENV e = Some ''production'' then None
                          else Some ''MongoServerError: E11000 duplicate key error'')]\<rparr>, d)
         \<and> ''E11000 duplicate key error'' \<noteq> ''User already exists''"
proof -
  from taken
  have "list_ex (\<lambda>v. username v = bson_string (trim un) \<or>
                      email v = bson_string (email_setters L em)) (users d)"
    by (auto simp: list_ex_iff)
  then have c: "User_create L w (users d) (body_username (req_body req))
                  (body_email (req_body req)) (body_password (req_body req)) =
                  Inl (mk_error ''MongoServerError'' ''E11000 duplicate key error'')"
    by (simp add: User_create_eq [OF cast valid])
  have s: "signupUser L e w req new_response d =
           (new_response,
            Threw (mk_error ''MongoServerError'' ''E11000 duplicate key error''), d)"
    unfolding signupUser_reaches_create [OF present new_email] c by simp
  have "POST_auth_signup L e w req d =
             (\<lparr>statusCode = 500,
               sent = [JErrorStack ''E11000 duplicate key error''
                         (if NODE_ENV e = Some ''production'' then None
                          else Some ''MongoServerError: E11000 duplicate key error'')]\<rparr>, d)"
    unfolding POST_auth_signup_def s
    by (simp add: dispatch_threw errorHandler_def status_def send_json_def new_response_def
        mk_error_def Let_def)
  with s show ?thesis by simp
qed

text \<open>On the sample store: registering a second \<open>bob\<close> under a new email.\<close>

theorem signup_duplicate_username_witness:
  "POST_auth_signup sample_lib sample_env sample_world
     (request_with None None (signup_body ''bob'' ''robert@x.com'' ''pw123456'')) sample_db =
     (\<lparr>statusCode = 500, sent = [JErrorStack ''E11000 duplicate key error'' None]\<rparr>, sample_db)"
proof -
  note b = sample_bodies(1-3) [of None None "''bob''" "''robert@x.com''" "''pw123456''"]
  have p: "truthy (String (str ''bob''))" "truthy (String (str ''robert@x.com''))"
    "truthy (String (str ''pw123456''))"
    by (simp_all add: str_def)
  have c: "castString sample_lib (String (str ''bob'')) = Some (str ''bob'')"
    "castString sample_lib (String (str ''robert@x.com'')) = Some (str ''robert@x.com'')"
    "castString sample_lib (String (str ''pw123456'')) = Some (str ''pw123456'')"
    by (simp_all add: castString_String)
  have v: "trim (str ''bob'') \<noteq> []" "email_setters sample_lib (str ''robert@x.com'') \<noteq> []"
    "str ''pw123456'' \<noteq> []"
    by (simp_all add: sample_trim sample_email_setters) (simp_all add: str_def)
  have t: "list_ex (\<lambda>v. username v = bson_string (trim (str ''bob''))) (users sample_db)"
    by (simp add: sample_trim bson_string_sample sample_db_def alice_def bob_def)
  let ?req = "request_with None None (signup_body ''bob'' ''robert@x.com'' ''pw123456'')"
  from signup_duplicate_username
    [where req = ?req and L = sample_lib and e = sample_env and w = sample_world,
      unfolded b, OF p c v sample_new_emails(1) t]
  show ?thesis by (simp add: sample_env_def)
qed

lemma loginUser_accepts:
  assumes "body_email (req_body req) = String em" "body_password (req_body req) = String pw"
    and "User_findOne_email L (users d) (String em) = Some u"
    and "bcrypt_compare L pw (password u)"
    and "generateToken L e w (user_id u) = Inr token"
  shows "loginUser L e w req res d =
           (send_json res (JAuth (user_id u) (username u) (email u) token), Completed, d)"
  using assms by (simp add: loginUser_def matchPassword_def Let_def)

text \<open>
  C3, as the code has it. Let the signing key be configured and let bcrypt accept the
  password against the hash it has just made of it. Take a registration whose username,
  email and password are strings, the username non-blank after trimming, the email
  non-empty after trimming and lower-casing, the password non-empty, whose email
  (trimmed and lower-cased) matches no stored account, and whose trimmed username is not
  the username of a stored account. Then signup answers 201 and appends the account to
  the store, and a login with the same email and password, at any later time, answers
  200; both responses carry the same account identifier, and the username and email as
  normalised (in the login response as the store holds them, which is the same text when
  it has no unpaired surrogate).
\<close>

theorem signup_then_login:
  assumes key: "JWT_SECRET e = Some k" "k \<noteq> []"
    and body: "body_username (req_body req) = String un"
      "body_email (req_body req) = String em" "body_password (req_body req) = String pw"
    and login: "body_email (req_body req2) = String em"
      "body_password (req_body req2) = String pw"
    and valid: "trim un \<noteq> []" "email_setters L em \<noteq> []" "pw \<noteq> []"
    and new_email: "User_findOne_email L (users d) (String em) = None"
    and new_name: "\<not> list_ex (\<lambda>v. username v = bson_string (trim un)) (users d)"
    and bcrypt: "bcrypt_compare L pw (bcrypt_hash L pw (bcrypt_genSalt L 10 (random_bytes w)))"
  shows "\<exists>d1 token1 token2.
           POST_auth_signup L e w req d =
             (\<lparr>statusCode = 201,
               sent = [JAuth (new_ObjectId w) (trim un) (email_setters L em) token1]\<rparr>, d1)
           \<and> POST_auth_login L e w2 req2 d1 =
             (\<lparr>statusCode = 200,
               sent = [JAuth (new_ObjectId w) (bson_string (trim un))
                         (bson_string (email_setters L em)) token2]\<rparr>, d1)
           \<and> users d1 = users d @ [stored_user (registered L w un em pw)]
           \<and> trips d1 = trips d"
proof -
  let ?u = "registered L w un em pw"
  let ?d1 = "d\<lparr>users := users d @ [stored_user ?u]\<rparr>"
  let ?t1 = "jwt_encode L (issued_payload w (new_ObjectId w)) k"
  let ?t2 = "jwt_encode L (issued_payload w2 (new_ObjectId w)) k"
  have tok: "generateToken L e w' (new_ObjectId w) =
               Inr (jwt_encode L (issued_payload w' (new_ObjectId w)) k)" for w'
    using key by (simp add: generateToken_def jwt_sign_def issued_payload_def)
  have u: "user_id ?u = new_ObjectId w" "username ?u = trim un"
    "email ?u = email_setters L em"
    by (simp_all add: registered_def)
  have su: "user_id (stored_user ?u) = new_ObjectId w"
    "username (stored_user ?u) = bson_string (trim un)"
    "email (stored_user ?u) = bson_string (email_setters L em)"
    "password (stored_user ?u) = bcrypt_hash L pw (bcrypt_genSalt L 10 (random_bytes w))"
    by (simp_all add: registered_def stored_user_def)
  from valid have ne: "un \<noteq> []" "em \<noteq> []"
    using trim_Nil email_setters_nonempty by auto
  have present: "truthy (body_username (req_body req))" "truthy (body_email (req_body req))"
    "truthy (body_password (req_body req))"
    using body ne valid(3) by simp_all
  have cast: "castString L (body_username (req_body req)) = Some un"
    "castString L (body_email (req_body req)) = Some em"
    "castString L (body_password (req_body req)) = Some pw"
    using body by (simp_all add: castString_String)
  from new_email
  have "\<not> list_ex (\<lambda>v. email v = bson_string (email_setters L em)) (users d)"
    by (simp add: User_findOne_email_def find_None_iff list_ex_iff)
  with new_name
  have "\<not> list_ex (\<lambda>v. username v = bson_string (trim un) \<or>
                        email v = bson_string (email_setters L em)) (users d)"
    by (auto simp: list_ex_iff)
  then have c: "User_create L w (users d) (body_username (req_body req))
                  (body_email (req_body req)) (body_password (req_body req)) =
                  Inr (?u, users d @ [stored_user ?u])"
    by (simp add: User_create_eq [OF cast valid])
  have ne': "User_findOne_email L (users d) (body_email (req_body req)) = None"
    using new_email body(2) by simp
  have s: "POST_auth_signup L e w req d =
             (\<lparr>statusCode = 201,
               sent = [JAuth (new_ObjectId w) (trim un) (email_setters L em) ?t1]\<rparr>, ?d1)"
    unfolding POST_auth_signup_def signupUser_reaches_create [OF present ne'] c
    by (simp add: tok u dispatch_completed send_json_def status_def new_response_def)
  from new_email
  have f: "User_findOne_email L (users ?d1) (String em) = Some (stored_user ?u)"
    by (simp add: User_findOne_email_def find_snoc su)
  have m: "bcrypt_compare L pw (password (stored_user ?u))"
    using bcrypt by (simp add: su)
  have l: "POST_auth_login L e w2 req2 ?d1 =
             (\<lparr>statusCode = 200,
               sent = [JAuth (new_ObjectId w) (bson_string (trim un))
                         (bson_string (email_setters L em)) ?t2]\<rparr>, ?d1)"
    unfolding POST_auth_login_def
      loginUser_accepts [OF login f m tok [unfolded su(1) [symmetric]]]
    by (simp add: su dispatch_completed send_json_def new_response_def)
  have "users ?d1 = users d @ [stored_user ?u]" "trips ?d1 = trips d"
    by simp_all
  with s l show ?thesis by (intro exI [of _ ?d1] exI [of _ ?t1] exI [of _ ?t2] conjI)
qed

text \<open>On the sample store: Carol registers and logs in.\<close>

theorem signup_then_login_witness:
  "\<exists>d1 token1 token2.
     POST_auth_signup sample_lib sample_env sample_world
       (request_with None None (signup_body ''carol'' ''Carol@X.com'' ''pw123456'')) sample_db =
       (\<lparr>statusCode = 201,
         sent = [JAuth (ObjectId 3) (str ''carol'') (str ''carol@x.com'') token1]\<rparr>, d1)
     \<and> POST_auth_login sample_lib sample_env sample_world
       (request_with None None (login_body ''Carol@X.com'' ''pw123456'')) d1 =
       (\<lparr>statusCode = 200,
         sent = [JAuth (ObjectId 3) (str ''carol'') (str ''carol@x.com'') token2]\<rparr>, d1)"
proof -
  have k: "JWT_SECRET sample_env = Some ''s3cret''" "''s3cret'' \<noteq> []"
    by (simp_all add: sample_env_def)
  have v: "trim (str ''carol'') \<noteq> []" "email_setters sample_lib (str ''Carol@X.com'') \<noteq> []"
    "str ''pw123456'' \<noteq> []"
    by (simp_all add: sample_trim sample_email_setters) (simp_all add: str_def)
  have u: "\<not> list_ex (\<lambda>v. username v = bson_string (trim (str ''carol''))) (users sample_db)"
    by (simp add: sample_trim bson_string_sample sample_db_def alice_def bob_def)
      (simp add: str_def)
  have c: "bcrypt_compare sample_lib (str ''pw123456'')
             (bcrypt_hash sample_lib (str ''pw123456'')
                (bcrypt_genSalt sample_lib 10 (random_bytes sample_world)))"
    by (simp add: sample_lib_def sample_world_def str_def)
  have i: "new_ObjectId sample_world = ObjectId 3"
    by (simp add: sample_world_def)
  note b = sample_bodies(1-3) [of None None "''carol''" "''Carol@X.com''" "''pw123456''"]
  note l = sample_bodies(4-5) [of None None "''Carol@X.com''" "''pw123456''"]
  from signup_then_login [OF k b l v sample_new_emails(2) u c, of sample_world]
  show ?thesis
    unfolding sample_trim sample_email_setters bson_string_sample i
    by (elim exE conjE) (intro exI conjI, assumption+)
qed

text \<open>
  C3 as the claim states it fails: username, email and password are present and the email
  is not registered, but the username is Bob's. Signup is rejected by the unique index
  and answers 500; the login that follows answers 401.
\<close>

theorem signup_taken_username_counterexample:
  "truthy (body_username (signup_body ''bob'' ''robert@x.com'' ''pw123456'')) \<and>
   truthy (body_email (signup_body ''bob'' ''robert@x.com'' ''pw123456'')) \<and>
   truthy (body_password (signup_body ''bob'' ''robert@x.com'' ''pw123456'')) \<and>
   User_findOne_email sample_lib (users sample_db) (String (str ''robert@x.com'')) = None \<and>
   POST_auth_signup sample_lib sample_env sample_world
     (request_with None None (signup_body ''bob'' ''robert@x.com'' ''pw123456'')) sample_db =
     (\<lparr>statusCode = 500, sent = [JErrorStack ''E11000 duplicate key error'' None]\<rparr>, sample_db) \<and>
   POST_auth_login sample_lib sample_env sample_world
     (request_with None None (login_body ''robert@x.com'' ''pw123456'')) sample_db =
     (\<lparr>statusCode = 401, sent = [JErrorStack ''Invalid email or password'' None]\<rparr>, sample_db)"
proof -
  let ?req = "request_with None None (signup_body ''bob'' ''robert@x.com'' ''pw123456'')"
  note b = sample_bodies(1-3) [of None None "''bob''" "''robert@x.com''" "''pw123456''"]
  have t: "truthy (body_username (signup_body ''bob'' ''robert@x.com'' ''pw123456''))"
    "truthy (body_email (signup_body ''bob'' ''robert@x.com'' ''pw123456''))"
    "truthy (body_password (signup_body ''bob'' ''robert@x.com'' ''pw123456''))"
    by (simp_all add: signup_body_def empty_body_def str_def)
  have p: "truthy (body_username (req_body ?req))" "truthy (body_email (req_body ?req))"
    "truthy (body_password (req_body ?req))"
    by (simp_all add: b str_def)
  have v: "trim (str ''bob'') \<noteq> []" "email_setters sample_lib (str ''robert@x.com'') \<noteq> []"
    "str ''pw123456'' \<noteq> []"
    by (simp_all add: sample_trim sample_email_setters) (simp_all add: str_def)
  have n: "User_findOne_email sample_lib (users sample_db) (body_email (req_body ?req)) = None"
    by (simp add: b sample_new_emails(1))
  have c: "User_create sample_lib sample_world (users sample_db)
             (body_username (req_body ?req)) (body_email (req_body ?req))
             (body_password (req_body ?req)) =
           Inl (mk_error ''MongoServerError'' ''E11000 duplicate key error'')"
    unfolding b User_create_eq [OF castString_String castString_String castString_String v]
    by (simp add: sample_trim bson_string_sample sample_db_def alice_def bob_def)
  have s: "POST_auth_signup sample_lib sample_env sample_world ?req sample_db =
     (\<lparr>statusCode = 500, sent = [JErrorStack ''E11000 duplicate key error'' None]\<rparr>, sample_db)"
    unfolding POST_auth_signup_def signupUser_reaches_create [OF p n] c
    by (simp add: dispatch_threw errorHandler_def status_def send_json_def new_response_def
        mk_error_def sample_env_def Let_def)
  have l: "POST_auth_login sample_lib sample_env sample_world
     (request_with None None (login_body ''robert@x.com'' ''pw123456'')) sample_db =
     (\<lparr>statusCode = 401, sent = [JErrorStack ''Invalid email or password'' None]\<rparr>, sample_db)"
    by (simp add: POST_auth_login_def loginUser_def sample_bodies sample_new_emails(1)
        Let_def dispatch_threw errorHandler_def status_def send_json_def new_response_def
        new_Error_def mk_error_def sample_env_def)
  from t sample_new_emails(1) s l show ?thesis by (intro conjI)
qed

section \<open>The password verifier\<close>

text \<open>
  C8. The \<open>pre('save')\<close> hook makes no bcrypt call and leaves the document as it is
  when the password path is not modified; saving such a document leaves the password
  unchanged, in the saved document and in the store. When the password path is modified,
  the hook calls \<open>bcrypt.genSalt(10)\<close> on the random bytes of this save and then
  \<open>bcrypt.hash\<close> with that salt, and stores the result in place of the password. The
  verifier of a newly registered account is that hash of the plaintext password.
\<close>

theorem password_hashed_only_when_modified:
  "(\<not> isModified doc ''password'' \<longrightarrow>
      userSchema_pre_save L w doc = (doc, []) \<and>
      (\<forall>saved us1. User_save L w us doc = Inr (saved, us1) \<longrightarrow>
         password saved = password (doc_fields doc) \<and>
         (\<not> isNew doc \<longrightarrow>
            list_all (\<lambda>v. user_id v = user_id (doc_fields doc) \<longrightarrow>
                           password v = password (doc_fields doc)) us1)))
   \<and> (isModified doc ''password'' \<longrightarrow>
      userSchema_pre_save L w doc =
        (doc\<lparr>doc_fields := (doc_fields doc)
               \<lparr>password := bcrypt_hash L (password (doc_fields doc))
                              (bcrypt_genSalt L 10 (random_bytes w))\<rparr>\<rparr>,
         [GenSalt 10,
          Hash (password (doc_fields doc)) (bcrypt_genSalt L 10 (random_bytes w))]))
   \<and> (\<forall>u us1. User_create L w us un em pw = Inr (u, us1) \<longrightarrow>
         (\<exists>s. castString L pw = Some s \<and>
              password u = bcrypt_hash L s (bcrypt_genSalt L 10 (random_bytes w))))"
proof (intro conjI impI allI)
  assume n: "\<not> isModified doc ''password''"
  then show "userSchema_pre_save L w doc = (doc, [])"
    by (simp add: userSchema_pre_save_def)
  fix saved us1
  assume s: "User_save L w us doc = Inr (saved, us1)"
  with n show "password saved = password (doc_fields doc)"
    by (auto simp: User_save_def userSchema_pre_save_def Let_def split: if_splits)
  assume "\<not> isNew doc"
  with n s show "list_all (\<lambda>v. user_id v = user_id (doc_fields doc) \<longrightarrow>
                           password v = password (doc_fields doc)) us1"
    by (auto simp: User_save_def userSchema_pre_save_def Let_def list_all_iff
        stored_user_def split: if_splits)
next
  assume "isModified doc ''password''"
  then show "userSchema_pre_save L w doc =
        (doc\<lparr>doc_fields := (doc_fields doc)
               \<lparr>password := bcrypt_hash L (password (doc_fields doc))
                              (bcrypt_genSalt L 10 (random_bytes w))\<rparr>\<rparr>,
         [GenSalt 10,
          Hash (password (doc_fields doc)) (bcrypt_genSalt L 10 (random_bytes w))])"
    by (simp add: userSchema_pre_save_def Let_def)
next
  fix u us1
  assume "User_create L w us un em pw = Inr (u, us1)"
  then show "\<exists>s. castString L pw = Some s \<and>
              password u = bcrypt_hash L s (bcrypt_genSalt L 10 (random_bytes w))"
    by (auto simp: User_create_def User_save_def userSchema_pre_save_def isModified_def
        new_User_def Let_def split: if_splits option.splits)
qed

text \<open>
  On the sample store: saving Alice under a new username keeps her verifier and makes no
  bcrypt call; saving her with a new password hashes it with a salt of cost 10.
\<close>

theorem password_hashed_only_when_modified_witness:
  "userSchema_pre_save sample_lib sample_world renamed_alice = (renamed_alice, [])
   \<and> (\<exists>saved. User_save sample_lib sample_world (users sample_db) renamed_alice =
                  Inr (saved, [saved, bob]) \<and>
                password saved = str ''$2a$10$saltpw123456'' \<and>
                username saved = str ''alicia'')
   \<and> password (doc_fields (fst (userSchema_pre_save sample_lib sample_world
                                   repassworded_alice))) = str ''$2a$10$salthunter3''
   \<and> snd (userSchema_pre_save sample_lib sample_world repassworded_alice) =
       [GenSalt 10, Hash (str ''hunter3'') (str ''$2a$10$salt'')]"
proof -
  note t1 = password_hashed_only_when_modified
    [of renamed_alice sample_lib sample_world "users sample_db"]
  note t2 = password_hashed_only_when_modified
    [of repassworded_alice sample_lib sample_world "users sample_db"]
  have n: "\<not> isModified renamed_alice ''password''"
    by (simp add: isModified_def renamed_alice_def)
  have m: "isModified repassworded_alice ''password''"
    by (simp add: isModified_def repassworded_alice_def)
  let ?saved = "alice\<lparr>username := str ''alicia''\<rparr>"
  have s: "User_save sample_lib sample_world (users sample_db) renamed_alice =
             Inr (?saved, [?saved, bob])"
    by (simp add: User_save_def User_validate_def userSchema_pre_save_def isModified_def
        renamed_alice_def duplicate_key_def Let_def sample_db_def alice_def bob_def
        sample_world_def stored_user_def str_def high_surrogate_def low_surrogate_def)
  from t1 [THEN conjunct1, rule_format, OF n]
  have a: "userSchema_pre_save sample_lib sample_world renamed_alice = (renamed_alice, [])"
    and b: "password ?saved = password (doc_fields renamed_alice)"
    using s by simp_all
  from b have b': "password ?saved = str ''$2a$10$saltpw123456''"
    by (simp add: renamed_alice_def alice_def)
  have c: "\<exists>saved. User_save sample_lib sample_world (users sample_db) renamed_alice =
                  Inr (saved, [saved, bob]) \<and>
                password saved = str ''$2a$10$saltpw123456'' \<and>
                username saved = str ''alicia''"
    using s b' by (intro exI [of _ ?saved]) simp
  from t2 [THEN conjunct2, THEN conjunct1, rule_format, OF m]
  have d: "password (doc_fields (fst (userSchema_pre_save sample_lib sample_world
                                   repassworded_alice))) = str ''$2a$10$salthunter3''"
    and e: "snd (userSchema_pre_save sample_lib sample_world repassworded_alice) =
       [GenSalt 10, Hash (str ''hunter3'') (str ''$2a$10$salt'')]"
    by (simp_all add: repassworded_alice_def alice_def sample_lib_def sample_world_def
        str_def)
  from a c d e show ?thesis by (intro conjI)
qed
end
